theory Spec2Isabelle
  imports Main "HOL-Library.Word"
begin

unbundle bit_operations_syntax

section \<open>JavaScript values\<close>

text \<open>
  The values that flow through the payment backend. Objects are maps from property names
  to values. Numbers are restricted to the integers (HTTP status codes, the upstream
  \<open>status: 1\<close> flag); no modelled path does arithmetic on them.
\<close>

datatype jsval
  = JUndefined
  | JNull
  | JBool bool
  | JNum int
  | JStr string
  | JArr "jsval list"
  | JObj "string \<Rightarrow> jsval option"

type_synonym jsobj = "string \<rightharpoonup> jsval"

text \<open>
  Webhook bodies and redirect query strings are flat objects of strings: this is what the
  gateways deliver (form-encoded bodies, query strings). A missing key reads as
  \<open>undefined\<close>.
\<close>

type_synonym fields = "string \<rightharpoonup> string"

fun truthy :: "jsval \<Rightarrow> bool" where
  "truthy JUndefined = False"
| "truthy JNull = False"
| "truthy (JBool b) = b"
| "truthy (JNum n) = (n \<noteq> 0)"
| "truthy (JStr s) = (s \<noteq> [])"
| "truthy (JArr xs) = True"
| "truthy (JObj m) = True"

definition js_or :: "jsval \<Rightarrow> jsval \<Rightarrow> jsval" where
  \<comment> \<open>\<open>a || b\<close>\<close>
  "js_or a b = (if truthy a then a else b)"

text \<open>\<open>x?.k\<close> for a data property \<open>k\<close>: \<open>undefined\<close> on a missing key and on a primitive.\<close>

fun js_prop :: "jsval \<Rightarrow> string \<Rightarrow> jsval" where
  "js_prop (JObj m) k = (case m k of None \<Rightarrow> JUndefined | Some v \<Rightarrow> v)"
| "js_prop v k = JUndefined"

definition nonempty :: "string option \<Rightarrow> string option" where
  \<comment> \<open>a field of a flat payload when it is truthy: present and not the empty string\<close>
  "nonempty x = (case x of None \<Rightarrow> None | Some s \<Rightarrow> if s = [] then None else Some s)"

definition truthy_field :: "string option \<Rightarrow> bool" where
  "truthy_field x = (nonempty x \<noteq> None)"

definition or_field :: "string option \<Rightarrow> string option \<Rightarrow> string option" where
  \<comment> \<open>\<open>a || b\<close> on fields of a flat payload\<close>
  "or_field a b = (if truthy_field a then a else b)"

definition or_empty :: "string option \<Rightarrow> string" where
  \<comment> \<open>\<open>a || ''\<close>\<close>
  "or_empty a = (case a of None \<Rightarrow> [] | Some s \<Rightarrow> s)"

definition lift_fields :: "fields \<Rightarrow> jsobj" where
  \<comment> \<open>a flat payload seen as an object\<close>
  "lift_fields p = (\<lambda>k. map_option JStr (p k))"

section \<open>Exceptions and upstream calls\<close>

datatype js_error = Error string | TypeError string | ReferenceError string

text \<open>
  What an \<open>axios.post\<close> call does: it resolves with the parsed body of a 2xx answer, or
  it rejects with an error that carries a message and, when the upstream answered at all,
  the status and body of the answer (no answer: time-out, refused connection).
\<close>

datatype http_outcome
  = HttpOk jsval
  | HttpFail string "(int \<times> jsval) option"

record env =
  NODE_ENV :: "string option"
  EASEBUZZ_ENV :: "string option"

section \<open>Strings\<close>

definition is_digit :: "char \<Rightarrow> bool" where
  "is_digit c = (c \<in> set ''0123456789'')"

definition strip_non_digits :: "string \<Rightarrow> string" where
  \<comment> \<open>\<open>s.replace(/\D/g, '')\<close>\<close>
  "strip_non_digits s = filter is_digit s"

definition is_space :: "char \<Rightarrow> bool" where
  \<comment> \<open>the white space and line terminators of \<open>String.prototype.trim\<close> below U+0080\<close>
  "is_space c = (c \<in> {CHR 0x09, CHR 0x0A, CHR 0x0B, CHR 0x0C, CHR 0x0D, CHR '' ''})"

definition js_trim :: "string \<Rightarrow> string" where
  "js_trim s = rev (dropWhile is_space (rev (dropWhile is_space s)))"

definition lower_char :: "char \<Rightarrow> char" where
  "lower_char c =
     (if c \<in> set ''ABCDEFGHIJKLMNOPQRSTUVWXYZ'' then char_of (of_char c + (32::nat)) else c)"

definition toLowerCase :: "string \<Rightarrow> string" where
  "toLowerCase s = map lower_char s"

fun show_nat :: "nat \<Rightarrow> string" where
  "show_nat n =
     (if n < 10 then [''0123456789'' ! n]
      else show_nat (n div 10) @ [''0123456789'' ! (n mod 10)])"

declare show_nat.simps [simp del]

definition show_int :: "int \<Rightarrow> string" where
  "show_int i = (if i < 0 then ''-'' @ show_nat (nat (- i)) else show_nat (nat i))"

fun join_comma :: "string list \<Rightarrow> string" where
  "join_comma [] = []"
| "join_comma [x] = x"
| "join_comma (x # y # ys) = x @ '','' @ join_comma (y # ys)"

text \<open>\<open>String(v)\<close>, which is \<open>v.toString()\<close> where \<open>v\<close> is neither \<open>null\<close> nor \<open>undefined\<close>.\<close>

fun js_toString :: "jsval \<Rightarrow> string" where
  "js_toString JUndefined = ''undefined''"
| "js_toString JNull = ''null''"
| "js_toString (JBool b) = (if b then ''true'' else ''false'')"
| "js_toString (JNum n) = show_int n"
| "js_toString (JStr s) = s"
| "js_toString (JArr xs) =
     join_comma (map (\<lambda>x. if x = JUndefined \<or> x = JNull then [] else js_toString x) xs)"
| "js_toString (JObj m) = ''[object Object]''"

definition index_object :: "jsval list \<Rightarrow> (string \<rightharpoonup> jsval)" where
  \<comment> \<open>the own enumerable properties of an array or of a string: its indices\<close>
  "index_object xs = map_of (zip (map show_nat [0..<length xs]) xs)"

text \<open>\<open>{...v}\<close>: the own enumerable properties of \<open>v\<close>.\<close>

fun spread :: "jsval \<Rightarrow> (string \<rightharpoonup> jsval)" where
  "spread (JObj m) = m"
| "spread (JArr xs) = index_object xs"
| "spread (JStr s) = index_object (map (\<lambda>c. JStr [c]) s)"
| "spread v = Map.empty"

definition cast_String :: "jsval \<Rightarrow> js_error + string" where
  \<comment> \<open>a value assigned to a path of schema type String; a value that does not cast makes
      \<open>save()\<close> reject\<close>
  "cast_String v =
     (case v of
        JArr xs \<Rightarrow> Inl (Error ''Cast to string failed'')
      | JObj m \<Rightarrow> Inl (Error ''Cast to string failed'')
      | _ \<Rightarrow> Inr (js_toString v))"

section \<open>The digest\<close>

text \<open>
  \<open>sha512.sha512\<close> of the package js-sha512: SHA-512 over the bytes of the string, printed
  as 128 lower-case hexadecimal digits. Strings are byte strings here, which is what the
  library hashes for text below U+0080.
\<close>

type_synonym w64 = "64 word"

definition rotr :: "nat \<Rightarrow> w64 \<Rightarrow> w64" where
  "rotr n x = word_rotr n x"

definition sha_ch :: "w64 \<Rightarrow> w64 \<Rightarrow> w64 \<Rightarrow> w64" where
  "sha_ch x y z = (x AND y) XOR (NOT x AND z)"

definition sha_maj :: "w64 \<Rightarrow> w64 \<Rightarrow> w64 \<Rightarrow> w64" where
  "sha_maj x y z = (x AND y) XOR (x AND z) XOR (y AND z)"

definition big_sigma0 :: "w64 \<Rightarrow> w64" where
  "big_sigma0 x = rotr 28 x XOR rotr 34 x XOR rotr 39 x"

definition big_sigma1 :: "w64 \<Rightarrow> w64" where
  "big_sigma1 x = rotr 14 x XOR rotr 18 x XOR rotr 41 x"

definition small_sigma0 :: "w64 \<Rightarrow> w64" where
  "small_sigma0 x = rotr 1 x XOR rotr 8 x XOR drop_bit 7 x"

definition small_sigma1 :: "w64 \<Rightarrow> w64" where
  "small_sigma1 x = rotr 19 x XOR rotr 61 x XOR drop_bit 6 x"

definition round_constants :: "w64 list" where
  "round_constants =
     [4794697086780616226, 8158064640168781261, 13096744586834688815,
      16840607885511220156, 4131703408338449720, 6480981068601479193,
      10538285296894168987, 12329834152419229976, 15566598209576043074,
      1334009975649890238, 2608012711638119052, 6128411473006802146,
      8268148722764581231, 9286055187155687089, 11230858885718282805,
      13951009754708518548, 16472876342353939154, 17275323862435702243,
      1135362057144423861, 2597628984639134821, 3308224258029322869,
      5365058923640841347, 6679025012923562964, 8573033837759648693,
      10970295158949994411, 12119686244451234320, 12683024718118986047,
      13788192230050041572, 14330467153632333762, 15395433587784984357,
      489312712824947311, 1452737877330783856, 2861767655752347644,
      3322285676063803686, 5560940570517711597, 5996557281743188959,
      7280758554555802590, 8532644243296465576, 9350256976987008742,
      10552545826968843579, 11727347734174303076, 12113106623233404929,
      14000437183269869457, 14369950271660146224, 15101387698204529176,
      15463397548674623760, 17586052441742319658, 1182934255886127544,
      1847814050463011016, 2177327727835720531, 2830643537854262169,
      3796741975233480872, 4115178125766777443, 5681478168544905931,
      6601373596472566643, 7507060721942968483, 8399075790359081724,
      8693463985226723168, 9568029438360202098, 10144078919501101548,
      10430055236837252648, 11840083180663258601, 13761210420658862357,
      14299343276471374635, 14566680578165727644, 15097957966210449927,
      16922976911328602910, 17689382322260857208, 500013540394364858,
      748580250866718886, 1242879168328830382, 1977374033974150939,
      2944078676154940804, 3659926193048069267, 4368137639120453308,
      4836135668995329356, 5532061633213252278, 6448918945643986474,
      6902733635092675308, 7801388544844847127]"

type_synonym sha_state = "w64 \<times> w64 \<times> w64 \<times> w64 \<times> w64 \<times> w64 \<times> w64 \<times> w64"

definition initial_state :: sha_state where
  "initial_state =
     (7640891576956012808, 13503953896175478587, 4354685564936845355, 11912009170470909681,
      5840696475078001361, 11170449401992604703, 2270897969802886507, 6620516959819538809)"

definition big_endian :: "nat \<Rightarrow> nat \<Rightarrow> nat list" where
  \<comment> \<open>the \<open>n\<close> bytes of \<open>v\<close>, most significant first\<close>
  "big_endian n v = map (\<lambda>i. (v div 256 ^ (n - 1 - i)) mod 256) [0..<n]"

definition pad_message :: "nat list \<Rightarrow> nat list" where
  "pad_message bs =
     bs @ [128] @ replicate ((239 - length bs mod 128) mod 128) 0
        @ big_endian 16 (8 * length bs)"

definition word_of_bytes :: "nat list \<Rightarrow> w64" where
  "word_of_bytes bs = of_nat (foldl (\<lambda>acc b. acc * 256 + b) 0 bs)"

definition block_words :: "nat list \<Rightarrow> nat \<Rightarrow> w64 list" where
  \<comment> \<open>the sixteen words of block \<open>i\<close>\<close>
  "block_words bs i =
     map (\<lambda>j. word_of_bytes (take 8 (drop (128 * i + 8 * j) bs))) [0..<16]"

definition schedule :: "w64 list \<Rightarrow> w64 list" where
  "schedule ws =
     fold (\<lambda>t w. w @ [small_sigma1 (w ! (t - 2)) + w ! (t - 7)
                        + small_sigma0 (w ! (t - 15)) + w ! (t - 16)])
       [16..<80] ws"

fun sha_round :: "w64 \<times> w64 \<Rightarrow> sha_state \<Rightarrow> sha_state" where
  "sha_round (k, w) (a, b, c, d, e, f, g, h) =
     (let t1 = h + big_sigma1 e + sha_ch e f g + k + w;
          t2 = big_sigma0 a + sha_maj a b c
      in (t1 + t2, a, b, c, d + t1, e, f, g))"

fun add_state :: "sha_state \<Rightarrow> sha_state \<Rightarrow> sha_state" where
  "add_state (a, b, c, d, e, f, g, h) (a', b', c', d', e', f', g', h') =
     (a + a', b + b', c + c', d + d', e + e', f + f', g + g', h + h')"

definition compress :: "nat list \<Rightarrow> nat \<Rightarrow> sha_state \<Rightarrow> sha_state" where
  "compress bs i st =
     add_state st (fold sha_round (zip round_constants (schedule (block_words bs i))) st)"

definition hex_digit :: "nat \<Rightarrow> char" where
  "hex_digit n = ''0123456789abcdef'' ! (n mod 16)"

definition hex64 :: "w64 \<Rightarrow> string" where
  "hex64 w = map (\<lambda>i. hex_digit (unat w div 16 ^ (15 - i))) [0..<16]"

fun hex_state :: "sha_state \<Rightarrow> string" where
  "hex_state (a, b, c, d, e, f, g, h) =
     hex64 a @ hex64 b @ hex64 c @ hex64 d @ hex64 e @ hex64 f @ hex64 g @ hex64 h"

definition sha512 :: "string \<Rightarrow> string" where
  "sha512 s =
     (let bs = pad_message (map of_char s)
      in hex_state (fold (compress bs) [0..<length bs div 128] initial_state))"

section \<open>Transactions and the store\<close>

text \<open>
  The document of \<open>models/Transaction.js\<close>. \<open>paymentRequest\<close> and \<open>paymentResponse\<close>
  are declared with \<open>type: Map\<close>: the record holds the entries of the Map, \<open>None\<close> when
  the path is unset; the restrictions of the Map on the names of its keys are not
  modelled. \<open>userId\<close> is the reference to the user, or the user document where a path
  has populated it. Time stamps are milliseconds.
\<close>

record transaction =
  doc_id :: nat
  userId :: jsval
  gateway :: string
  amount :: int
  currency :: string
  status :: string
  transactionId :: string
  gatewayTransactionId :: "string option"
  paymentRequest :: "jsobj option"
  paymentResponse :: "jsobj option"
  callbackUrl :: "string option"
  returnUrl :: "string option"
  createdAt :: nat
  updatedAt :: nat

type_synonym store = "transaction list"

text \<open>What a route answers: the HTTP status, the \<open>success\<close> flag and the message.\<close>

record reply =
  code :: nat
  ok :: bool
  message :: string

definition findOne :: "(transaction \<Rightarrow> bool) \<Rightarrow> store \<Rightarrow> transaction option" where
  \<comment> \<open>\<open>Transaction.findOne(filter)\<close>: the first document that matches\<close>
  "findOne f db = find f db"

definition save :: "transaction \<Rightarrow> store \<Rightarrow> store" where
  \<comment> \<open>\<open>transaction.save()\<close> of a document that was loaded from the store\<close>
  "save t db = map (\<lambda>u. if doc_id u = doc_id t then t else u) db"

definition fromEntries :: "jsobj option \<Rightarrow> jsobj" where
  \<comment> \<open>\<open>m ? Object.fromEntries(m) : {}\<close> for a Map-typed path \<open>m\<close>\<close>
  "fromEntries m = (case m of None \<Rightarrow> Map.empty | Some es \<Rightarrow> es)"


section \<open>The UPI adapter\<close>

datatype callback_result
  = CallbackOk (cb_transactionId: "string option") (cb_status: string) (cb_data: fields)
  | CallbackFail (cb_error: string)

definition upi_handleCallback :: "fields \<Rightarrow> callback_result" where
  \<comment> \<open>\<open>UPIGateway.handleCallback\<close>; the \<open>amount\<close> of the result (a \<open>parseFloat\<close>) is read
      by no caller and is left out\<close>
  "upi_handleCallback callbackData =
     (let transactionId = or_field (callbackData ''client_txn_id'') (callbackData ''order_id'');
          st = callbackData ''status''
      in CallbackOk transactionId
           (if st = Some ''success'' \<or> st = Some ''completed'' \<or> st = Some ''paid''
            then ''success'' else ''failed'')
           callbackData)"


text \<open>
  The answer of an adapter's \<open>checkPaymentStatus\<close> and \<open>retrieveTransactionDetails\<close>. A
  field the adapter leaves out reads as \<open>undefined\<close>.
\<close>

record status_response =
  sr_success :: bool
  sr_data :: jsval
  sr_transactionDetails :: jsval
  sr_error :: jsval

definition status_failure :: "jsval \<Rightarrow> status_response" where
  "status_failure e =
     \<lparr>sr_success = False, sr_data = JUndefined, sr_transactionDetails = JNull, sr_error = e\<rparr>"

record upi =
  upi_key :: string
  upi_baseUrl :: string

definition upi_checkPaymentStatus ::
  "(jsval \<Rightarrow> string) \<Rightarrow> upi \<Rightarrow> string \<Rightarrow> http_outcome \<Rightarrow> status_response"
where
  \<comment> \<open>\<open>UPIGateway.checkPaymentStatus\<close> from the answer of \<open>/check_order_status\<close> on;
      \<open>json\<close> is \<open>JSON.stringify\<close>, whose text only enters the error message; the
      optional \<open>txn_date\<close> only enters the request\<close>
  "upi_checkPaymentStatus json u txId outcome =
     (let failed = (\<lambda>errorMessage.
            \<lparr>sr_success = False, sr_data = JUndefined, sr_transactionDetails = JUndefined,
             sr_error = JStr (''Failed to check UPI order status: '' @ errorMessage)\<rparr>)
      in case outcome of
           HttpFail msg None \<Rightarrow> failed msg
         | HttpFail msg (Some (st, body)) \<Rightarrow>
             failed (''Status: '' @ show_int st @ '' - '' @ json body)
         | HttpOk body \<Rightarrow>
             (if body = JUndefined \<or> body = JNull then
                failed (''Cannot read properties of '' @ js_toString body
                          @ '' (reading 'status')'')
              else if \<not> truthy (js_prop body ''status'') then
                failed (js_toString (js_or (js_prop body ''msg'')
                                           (JStr ''Failed to check order status'')))
              else \<lparr>sr_success = True, sr_data = body, sr_transactionDetails = JUndefined,
                     sr_error = JUndefined\<rparr>))"

section \<open>The Easebuzz adapter\<close>

record easebuzz =
  eb_key :: string
  eb_salt :: string
  eb_baseUrl :: string

definition reverse_hash_string :: "easebuzz \<Rightarrow> fields \<Rightarrow> string" where
  \<comment> \<open>the \<open>hashstring\<close> of \<open>EasebuzzGateway.verifyHash\<close>\<close>
  "reverse_hash_string gw response =
     js_trim (eb_salt gw) @ ''|'' @ or_empty (response ''status'') @ ''|''
       @ or_empty (response ''udf10'') @ ''|'' @ or_empty (response ''udf9'') @ ''|''
       @ or_empty (response ''udf8'') @ ''|'' @ or_empty (response ''udf7'') @ ''|''
       @ or_empty (response ''udf6'') @ ''|'' @ or_empty (response ''udf5'') @ ''|''
       @ or_empty (response ''udf4'') @ ''|'' @ or_empty (response ''udf3'') @ ''|''
       @ or_empty (response ''udf2'') @ ''|'' @ or_empty (response ''udf1'') @ ''|''
       @ or_empty (response ''email'') @ ''|'' @ or_empty (response ''firstname'') @ ''|''
       @ or_empty (response ''productinfo'') @ ''|'' @ or_empty (response ''amount'') @ ''|''
       @ or_empty (response ''txnid'') @ ''|'' @ js_trim (eb_key gw)"

definition verifyHash :: "easebuzz \<Rightarrow> fields \<Rightarrow> string option \<Rightarrow> bool" where
  \<comment> \<open>\<open>EasebuzzGateway.verifyHash(response, receivedHash)\<close>\<close>
  "verifyHash gw response receivedHash =
     (case nonempty receivedHash of
        None \<Rightarrow> False
      | Some h \<Rightarrow> toLowerCase (sha512 (reverse_hash_string gw response)) = toLowerCase h)"

definition eb_responseData :: "fields \<Rightarrow> fields" where
  \<comment> \<open>the \<open>responseData\<close> object of \<open>EasebuzzGateway.handleCallback\<close>\<close>
  "eb_responseData callbackData =
     [''status'' \<mapsto> or_empty (callbackData ''status''),
      ''udf1'' \<mapsto> or_empty (callbackData ''udf1''),
      ''udf2'' \<mapsto> or_empty (callbackData ''udf2''),
      ''udf3'' \<mapsto> or_empty (callbackData ''udf3''),
      ''udf4'' \<mapsto> or_empty (callbackData ''udf4''),
      ''udf5'' \<mapsto> or_empty (callbackData ''udf5''),
      ''udf6'' \<mapsto> or_empty (callbackData ''udf6''),
      ''udf7'' \<mapsto> or_empty (callbackData ''udf7''),
      ''udf8'' \<mapsto> or_empty (callbackData ''udf8''),
      ''udf9'' \<mapsto> or_empty (callbackData ''udf9''),
      ''udf10'' \<mapsto> or_empty (callbackData ''udf10''),
      ''email'' \<mapsto> or_empty (callbackData ''email''),
      ''firstname'' \<mapsto> or_empty (callbackData ''firstname''),
      ''productinfo'' \<mapsto> or_empty (callbackData ''productinfo''),
      ''amount'' \<mapsto> or_empty (callbackData ''amount''),
      ''txnid'' \<mapsto> or_empty (callbackData ''txnid'')]"

definition eb_callback_status :: "string option \<Rightarrow> string" where
  \<comment> \<open>\<open>status === 'success' ? 'success' : (status === 'failure' ? 'failed' : 'pending')\<close>\<close>
  "eb_callback_status st =
     (if st = Some ''success'' then ''success''
      else if st = Some ''failure'' then ''failed'' else ''pending'')"

definition eb_handleCallback :: "env \<Rightarrow> easebuzz \<Rightarrow> fields \<Rightarrow> callback_result" where
  \<comment> \<open>\<open>EasebuzzGateway.handleCallback\<close>; the \<open>amount\<close> of the result (a \<open>parseFloat\<close>)
      is read by no caller and is left out\<close>
  "eb_handleCallback ev gw callbackData =
     (let hash = callbackData ''hash'';
          accepted = CallbackOk (callbackData ''txnid'')
                       (eb_callback_status (callbackData ''status'')) callbackData
      in if truthy_field hash then
           (if verifyHash gw (eb_responseData callbackData) hash then accepted
            else if NODE_ENV ev = Some ''development'' \<or> EASEBUZZ_ENV ev = Some ''test''
              then accepted
            else CallbackFail ''Invalid hash verification'')
         else if NODE_ENV ev = Some ''production'' \<and> EASEBUZZ_ENV ev = Some ''prod''
           then CallbackFail ''Hash is required for callback verification''
         else accepted)"

definition first_details :: "jsval \<Rightarrow> jsval" where
  \<comment> \<open>the \<open>transactionDetails\<close> that \<open>EasebuzzGateway.checkPaymentStatus\<close> takes from
      \<open>response.data\<close>; \<open>null\<close> when it takes none\<close>
  "first_details body =
     (if truthy body then
        (case js_prop body ''msg'' of
           JArr (x # xs) \<Rightarrow> x
         | _ \<Rightarrow> body)
      else JNull)"

definition eb_checkPaymentStatus ::
  "easebuzz \<Rightarrow> string \<Rightarrow> transaction option \<Rightarrow> http_outcome \<Rightarrow> http_outcome \<Rightarrow> status_response"
where
  \<comment> \<open>\<open>EasebuzzGateway.checkPaymentStatus(transactionId, transactionData)\<close>; \<open>v1\<close> and
      \<open>v2\<close> are the answers of the two dashboard endpoints to the signed form, the second
      being asked only when the first fails; \<open>userId\<close> holds the user document as
      \<open>populate\<close> delivers it\<close>
  "eb_checkPaymentStatus gw txId transactionData v1 v2 =
     (let email = (case transactionData of
                     None \<Rightarrow> JNull
                   | Some t \<Rightarrow>
                       js_or (js_or (js_prop (JObj (fromEntries (paymentRequest t))) ''email'')
                                    (js_prop (userId t) ''email''))
                             (JStr []));
          phone = (case transactionData of
                     None \<Rightarrow> JNull
                   | Some t \<Rightarrow>
                       js_or (js_prop (JObj (fromEntries (paymentRequest t))) ''phone'')
                             (JStr []))
      in if \<not> truthy email \<or> \<not> truthy phone then
           status_failure (JStr (''Email and phone are required for Easebuzz transaction ''
             @ ''retrieval. Please ensure transaction data is provided.''))
         else if length (strip_non_digits (js_trim (js_toString phone))) \<noteq> 10 then
           status_failure (JStr ''Phone number must be exactly 10 digits'')
         else (case email of
                 JStr e \<Rightarrow>
                   (let fetched =
                          (case v1 of
                             HttpOk body \<Rightarrow> Inr (first_details body)
                           | HttpFail m1 r1 \<Rightarrow>
                               (case v2 of
                                  HttpOk body \<Rightarrow> Inr (first_details body)
                                | HttpFail m2 r2 \<Rightarrow>
                                    Inl (''Both v1 and v2.1 endpoints failed. v1: '' @ m1
                                           @ '', v2.1: '' @ m2)))
                    in case fetched of
                         Inl msg \<Rightarrow> status_failure (JStr msg)
                       | Inr transactionDetails \<Rightarrow>
                           (if \<not> truthy transactionDetails then
                              status_failure
                                (JStr ''No transaction details received from Easebuzz API'')
                            else \<lparr>sr_success = True, sr_data = transactionDetails,
                                   sr_transactionDetails = transactionDetails,
                                   sr_error = JUndefined\<rparr>))
               | _ \<Rightarrow> status_failure (JStr ''email.trim is not a function'')))"

text \<open>
  An exception as a \<open>catch\<close> clause sees it: its message and, for a rejected upstream call
  that was answered, the status and body of the answer (\<open>error.response\<close>).
\<close>

datatype thrown = Thrown string "(int \<times> jsval) option"

definition retrieve_details :: "jsval \<Rightarrow> jsval" where
  \<comment> \<open>the \<open>transactionDetails\<close> that \<open>EasebuzzGateway.retrieveTransactionDetails\<close> takes
      from \<open>response.data\<close>; \<open>null\<close> when it takes none\<close>
  "retrieve_details body =
     (if truthy body then
        (case js_prop body ''msg'' of
           JArr [] \<Rightarrow> JArr []
         | JArr (x # xs) \<Rightarrow> x
         | JObj m \<Rightarrow> JObj m
         | _ \<Rightarrow> body)
      else JNull)"

definition retrieve_try :: "easebuzz \<Rightarrow> string \<Rightarrow> http_outcome \<Rightarrow> thrown + status_response" where
  \<comment> \<open>the \<open>try\<close> block of \<open>EasebuzzGateway.retrieveTransactionDetails(txnid)\<close>;
      \<open>outcome\<close> is the answer of the dashboard to the signed form\<close>
  "retrieve_try gw txnid outcome =
     (if txnid = [] then Inl (Thrown ''Transaction ID (txnid) is required'' None)
      else if js_trim (eb_key gw) = [] \<or> js_trim (eb_salt gw) = [] then
        Inl (Thrown ''Easebuzz key and salt must be configured'' None)
      else (case outcome of
              HttpFail msg r \<Rightarrow> Inl (Thrown msg r)
            | HttpOk body \<Rightarrow>
                (let transactionDetails = retrieve_details body
                 in if \<not> truthy transactionDetails then
                      Inl (Thrown ''No transaction details received from Easebuzz API'' None)
                    else Inr \<lparr>sr_success = True, sr_data = transactionDetails,
                              sr_transactionDetails = transactionDetails,
                              sr_error = JUndefined\<rparr>)))"

definition retrieve_catch :: "(jsval \<Rightarrow> string) \<Rightarrow> thrown \<Rightarrow> js_error + status_response" where
  \<comment> \<open>the \<open>catch\<close> block of \<open>EasebuzzGateway.retrieveTransactionDetails\<close>. The object it
      returns reads \<open>trimmedTxnId\<close> and \<open>trimmedKey\<close>, which are \<open>const\<close> declarations
      of the \<open>try\<close> block and are not in scope here: evaluating the object literal
      throws. \<open>errorMessage.includes\<close> throws before that when the upstream put a number,
      a boolean or an object where a message was expected\<close>
  "retrieve_catch json err =
     (case err of
        Thrown msg response \<Rightarrow>
          (let errorResponse = (case response of None \<Rightarrow> JUndefined | Some (st, body) \<Rightarrow> body);
               errorMessage =
                 (if truthy errorResponse then
                    (if truthy (js_prop errorResponse ''error_desc'')
                       then js_prop errorResponse ''error_desc''
                     else if truthy (js_prop errorResponse ''message'')
                       then js_prop errorResponse ''message''
                     else (case errorResponse of
                             JObj m \<Rightarrow> JStr (json errorResponse)
                           | JArr xs \<Rightarrow> JStr (json errorResponse)
                           | _ \<Rightarrow> JStr msg))
                  else JStr msg)
           in if truthy errorMessage
                 \<and> (case errorMessage of
                       JNum n \<Rightarrow> True | JBool b \<Rightarrow> True | JObj m \<Rightarrow> True | _ \<Rightarrow> False)
              then Inl (TypeError ''errorMessage.includes is not a function'')
              else Inl (ReferenceError ''trimmedTxnId is not defined'')))"

definition retrieveTransactionDetails ::
  "(jsval \<Rightarrow> string) \<Rightarrow> easebuzz \<Rightarrow> string \<Rightarrow> http_outcome \<Rightarrow> js_error + status_response"
where
  \<comment> \<open>\<open>EasebuzzGateway.retrieveTransactionDetails(txnid)\<close>: \<open>Inl\<close> is a rejected promise\<close>
  "retrieveTransactionDetails json gw txnid outcome =
     (case retrieve_try gw txnid outcome of
        Inr r \<Rightarrow> Inr r
      | Inl err \<Rightarrow> retrieve_catch json err)"

text \<open>
  What \<open>EasebuzzGateway.createPayment\<close> and \<open>UPIGateway.createPayment\<close> return. A field
  that an adapter leaves out reads as \<open>undefined\<close>.
\<close>

record gateway_response =
  gr_success :: bool
  gr_error :: jsval
  gr_msg :: jsval
  gr_data :: jsval
  gr_paymentLink :: jsval
  gr_orderId :: jsval
  gr_gatewayTransactionId :: jsval
  gr_rawResponse :: jsval

definition strip_slash :: "string \<Rightarrow> string" where
  \<comment> \<open>\<open>b.endsWith('/') ? b.slice(0, -1) : b\<close>\<close>
  "strip_slash b = (if b \<noteq> [] \<and> last b = CHR ''/'' then butlast b else b)"

definition eb_createPayment_answer ::
  "(jsval \<Rightarrow> string) \<Rightarrow> easebuzz \<Rightarrow> string \<Rightarrow> http_outcome \<Rightarrow> gateway_response"
where
  \<comment> \<open>\<open>EasebuzzGateway.createPayment\<close> from the call of \<open>/payment/initiateLink\<close> on, the
      request having been validated and signed; \<open>finalTxnId\<close> is the reference sent\<close>
  "eb_createPayment_answer json gw finalTxnId outcome =
     (let failed = (\<lambda>errorMsg.
            \<lparr>gr_success = False, gr_error = JStr errorMsg, gr_msg = JStr errorMsg,
             gr_data = JUndefined, gr_paymentLink = JUndefined, gr_orderId = JUndefined,
             gr_gatewayTransactionId = JUndefined, gr_rawResponse = JUndefined\<rparr>)
      in case outcome of
           HttpFail msg response \<Rightarrow>
             (let errorData = (case response of None \<Rightarrow> JUndefined | Some (st, body) \<Rightarrow> body);
                  errorMessage =
                    js_or (js_or (js_or (js_or (js_or (js_prop errorData ''error_desc'')
                                                       (js_prop errorData ''msg''))
                                               (js_prop errorData ''message''))
                                        (js_prop errorData ''error''))
                                 (case errorData of
                                    JStr e \<Rightarrow> JStr e
                                  | JUndefined \<Rightarrow> JUndefined
                                  | _ \<Rightarrow> JStr (json errorData)))
                          (JStr msg)
              in failed (js_toString errorMessage))
         | HttpOk body \<Rightarrow>
             (if truthy body then
                (if js_prop body ''status'' = JNum 1 then
                   (let paymentId = js_prop body ''data'';
                        paymentUrl = strip_slash (eb_baseUrl gw) @ ''/pay/''
                                       @ js_toString paymentId
                    in \<lparr>gr_success = True, gr_error = JUndefined,
                         gr_msg = JStr ''Payment initiated successfully'',
                         gr_data = JObj [''order_id'' \<mapsto> JStr finalTxnId,
                                         ''payment_url'' \<mapsto> JStr paymentUrl,
                                         ''client_txn_id'' \<mapsto> JStr finalTxnId,
                                         ''payment_id'' \<mapsto> paymentId],
                         gr_paymentLink = JStr paymentUrl, gr_orderId = JStr finalTxnId,
                         gr_gatewayTransactionId = paymentId, gr_rawResponse = body\<rparr>)
                 else failed (js_toString
                        (js_or (js_or (js_or (js_prop body ''error_desc'') (js_prop body ''msg''))
                                      (js_prop body ''message''))
                               (JStr ''Payment link not received''))))
              else failed ''Payment link not received from gateway''))"

section \<open>The payment service\<close>

definition map_gateway_status :: "jsval \<Rightarrow> string" where
  \<comment> \<open>the \<open>newStatus\<close> of \<open>PaymentService.checkPaymentStatus\<close> and of the route
      \<open>/easebuzz/retrieve-transaction\<close>\<close>
  "map_gateway_status gatewayStatus =
     (if gatewayStatus = JStr ''success'' \<or> gatewayStatus = JStr ''completed''
         \<or> gatewayStatus = JStr ''paid'' then ''success''
      else if gatewayStatus = JStr ''failed'' \<or> gatewayStatus = JStr ''failure''
        then ''failed''
      else if gatewayStatus = JStr ''cancelled'' \<or> gatewayStatus = JStr ''canceled''
        then ''cancelled''
      else ''pending'')"

record gateways =
  gw_easebuzz :: "easebuzz option"
  gw_upigateway :: "upi option"

datatype adapter = Easebuzz easebuzz | UPIGateway upi

definition getGateway :: "gateways \<Rightarrow> string \<Rightarrow> js_error + adapter" where
  \<comment> \<open>\<open>PaymentService.getGateway\<close>; \<open>initializeGateway\<close> fills no other key of
      \<open>this.gateways\<close> than these two\<close>
  "getGateway gws gatewayName =
     (let missing = Inl (Error (''Gateway '' @ gatewayName @ '' not initialized''))
      in if toLowerCase gatewayName = ''easebuzz'' then
           (case gw_easebuzz gws of None \<Rightarrow> missing | Some g \<Rightarrow> Inr (Easebuzz g))
         else if toLowerCase gatewayName = ''upigateway'' then
           (case gw_upigateway gws of None \<Rightarrow> missing | Some u \<Rightarrow> Inr (UPIGateway u))
         else missing)"


definition callback_key :: "fields \<Rightarrow> string option" where
  \<comment> \<open>\<open>callbackData.gateway_transaction_id || callbackData.txnid || callbackData.order_id
      || callbackData.client_txn_id\<close>\<close>
  "callback_key callbackData =
     or_field (or_field (or_field (callbackData ''gateway_transaction_id'')
                                  (callbackData ''txnid''))
                        (callbackData ''order_id''))
              (callbackData ''client_txn_id'')"


definition callback_update ::
  "string \<Rightarrow> nat \<Rightarrow> string option \<Rightarrow> string \<Rightarrow> fields \<Rightarrow> fields \<Rightarrow> transaction \<Rightarrow> transaction"
where
  \<comment> \<open>the assignments of \<open>PaymentService.handleCallback\<close> to the document found\<close>
  "callback_update stamp now tid st data callbackData t =
     (let t1 = t\<lparr>status := st\<rparr>;
          gatewayTxnId = or_field (callback_key callbackData) tid;
          t2 = (if truthy_field gatewayTxnId
                then t1\<lparr>gatewayTransactionId := gatewayTxnId\<rparr> else t1);
          existingResponse = fromEntries (paymentResponse t2);
          t3 = t2\<lparr>paymentResponse :=
                 Some ((existingResponse ++ lift_fields data)
                         (''callback_received_at'' \<mapsto> JStr stamp,
                          ''callback_data'' \<mapsto> JObj (lift_fields callbackData)))\<rparr>
      in t3\<lparr>updatedAt := now\<rparr>)"



definition poll_details :: "status_response \<Rightarrow> jsval" where
  \<comment> \<open>\<open>statusResponse.transactionDetails || statusResponse.data\<close>\<close>
  "poll_details sr = js_or (sr_transactionDetails sr) (sr_data sr)"

definition poll_status :: "status_response \<Rightarrow> jsval" where
  \<comment> \<open>the \<open>gatewayStatus\<close> of \<open>PaymentService.checkPaymentStatus\<close>\<close>
  "poll_status sr =
     js_or (js_or (js_or (js_prop (poll_details sr) ''status'')
                         (js_prop (poll_details sr) ''payment_status''))
                  (js_prop (sr_data sr) ''status''))
           (js_prop (sr_data sr) ''payment_status'')"

definition poll_gateway_id :: "status_response \<Rightarrow> jsval" where
  \<comment> \<open>the \<open>gatewayTxnId\<close> of \<open>PaymentService.checkPaymentStatus\<close>\<close>
  "poll_gateway_id sr =
     js_or (js_or (js_or (js_prop (poll_details sr) ''txnid'')
                         (js_prop (poll_details sr) ''transaction_id''))
                  (js_prop (sr_data sr) ''gateway_transaction_id''))
           (js_prop (sr_data sr) ''txnid'')"

definition poll_update ::
  "string \<Rightarrow> nat \<Rightarrow> status_response \<Rightarrow> transaction \<Rightarrow> js_error + transaction option"
where
  \<comment> \<open>\<open>PaymentService.checkPaymentStatus\<close> from \<open>if (statusResponse.success)\<close> to the
      \<open>save()\<close>: the document to save, if any\<close>
  "poll_update stamp now sr t =
     (if sr_success sr then
        (if truthy (poll_status sr) then
           (let newStatus = map_gateway_status (poll_status sr);
                shouldUpdate = (status t \<noteq> newStatus \<or> truthy (poll_details sr))
            in if shouldUpdate then
                 (let t1 = (if status t \<noteq> newStatus then t\<lparr>status := newStatus\<rparr> else t);
                      assigned =
                        (if truthy (poll_gateway_id sr) then
                           (case cast_String (poll_gateway_id sr) of
                              Inl e \<Rightarrow> Inl e
                            | Inr g \<Rightarrow> Inr (t1\<lparr>gatewayTransactionId := Some g\<rparr>))
                         else Inr t1)
                  in case assigned of
                       Inl e \<Rightarrow> Inl e
                     | Inr t2 \<Rightarrow>
                         Inr (Some (t2\<lparr>paymentResponse :=
                                Some ((fromEntries (paymentResponse t2)
                                         ++ spread (poll_details sr))
                                        (''status_check_date'' \<mapsto> JStr stamp,
                                         ''status_check_response'' \<mapsto> sr_data sr)),
                              updatedAt := now\<rparr>)))
               else Inr None)
         else Inr None)
      else Inr None)"

definition checkPaymentStatus ::
  "gateways \<Rightarrow> (jsval \<Rightarrow> string) \<Rightarrow> string \<Rightarrow> nat \<Rightarrow> string \<Rightarrow> http_outcome \<Rightarrow> http_outcome
     \<Rightarrow> store \<Rightarrow> js_error + store \<times> transaction"
where
  \<comment> \<open>\<open>PaymentService.checkPaymentStatus(transactionId, txn_date)\<close>: the store and the
      document it returns; \<open>v1\<close>, \<open>v2\<close> are the answers of the upstream (the UPI adapter
      asks once)\<close>
  "checkPaymentStatus gws json stamp now txId v1 v2 db =
     (case findOne (\<lambda>t. transactionId t = txId) db of
        None \<Rightarrow> Inl (Error ''Transaction not found'')
      | Some t \<Rightarrow>
          (case getGateway gws (gateway t) of
             Inl e \<Rightarrow> Inl e
           | Inr gatewayInstance \<Rightarrow>
               (let statusResponse =
                      (case gatewayInstance of
                         Easebuzz g \<Rightarrow>
                           eb_checkPaymentStatus g txId
                             (if gateway t = ''easebuzz'' then Some t else None) v1 v2
                       | UPIGateway u \<Rightarrow> upi_checkPaymentStatus json u txId v1)
                in case poll_update stamp now statusResponse t of
                     Inl e \<Rightarrow> Inl e
                   | Inr None \<Rightarrow> Inr (db, t)
                   | Inr (Some t') \<Rightarrow> Inr (save t' db, t'))))"



definition retrieve_update :: "string \<Rightarrow> nat \<Rightarrow> jsval \<Rightarrow> transaction \<Rightarrow> transaction" where
  \<comment> \<open>the assignments of the route \<open>/easebuzz/retrieve-transaction\<close> to the document\<close>
  "retrieve_update stamp now transactionDetails t =
     (let gatewayStatus = js_or (js_prop transactionDetails ''status'')
                                (js_prop transactionDetails ''payment_status'');
          t1 = (if truthy gatewayStatus \<and> status t \<noteq> map_gateway_status gatewayStatus
                then t\<lparr>status := map_gateway_status gatewayStatus\<rparr> else t)
      in t1\<lparr>paymentResponse :=
              Some ((fromEntries (paymentResponse t1) ++ spread transactionDetails)
                      (''retrieved_at'' \<mapsto> JStr stamp)),
            updatedAt := now\<rparr>)"

definition retrieve_route ::
  "gateways \<Rightarrow> (jsval \<Rightarrow> string) \<Rightarrow> string \<Rightarrow> nat \<Rightarrow> string \<Rightarrow> http_outcome \<Rightarrow> store
     \<Rightarrow> reply \<times> store"
where
  \<comment> \<open>the route \<open>POST /easebuzz/retrieve-transaction\<close> for a body with the field
      \<open>txnid\<close>\<close>
  "retrieve_route gws json stamp now txnid outcome db =
     (if txnid = [] then (\<lparr>code = 400, ok = False, message = ''Validation error''\<rparr>, db)
      else
        (let transaction0 =
               findOne (\<lambda>t. (transactionId t = txnid \<or> gatewayTransactionId t = Some txnid)
                              \<and> gateway t = ''easebuzz'') db;
             easebuzzTxnId =
               (case transaction0 of
                  None \<Rightarrow> txnid
                | Some t \<Rightarrow> (case nonempty (gatewayTransactionId t) of
                              None \<Rightarrow> txnid | Some g \<Rightarrow> g))
         in case getGateway gws ''easebuzz'' of
              Inl e \<Rightarrow>
                (\<lparr>code = 500, ok = False,
                  message = ''Gateway easebuzz not initialized''\<rparr>, db)
            | Inr (UPIGateway u) \<Rightarrow>
                (\<lparr>code = 500, ok = False,
                  message = ''gatewayInstance.retrieveTransactionDetails is not a function''\<rparr>,
                 db)
            | Inr (Easebuzz g) \<Rightarrow>
                (case retrieveTransactionDetails json g easebuzzTxnId outcome of
                   Inl (Error m) \<Rightarrow> (\<lparr>code = 500, ok = False, message = m\<rparr>, db)
                 | Inl (TypeError m) \<Rightarrow> (\<lparr>code = 500, ok = False, message = m\<rparr>, db)
                 | Inl (ReferenceError m) \<Rightarrow> (\<lparr>code = 500, ok = False, message = m\<rparr>, db)
                 | Inr result \<Rightarrow>
                     (if \<not> sr_success result then
                        (\<lparr>code = 400, ok = False,
                          message = js_toString
                            (js_or (sr_error result)
                                   (JStr ''Failed to retrieve transaction details''))\<rparr>, db)
                      else
                        (let found =
                               (case transaction0 of
                                  Some t \<Rightarrow> Some t
                                | None \<Rightarrow>
                                    findOne (\<lambda>t. (transactionId t = txnid
                                                   \<or> transactionId t = easebuzzTxnId
                                                   \<or> gatewayTransactionId t = Some txnid
                                                   \<or> gatewayTransactionId t = Some easebuzzTxnId)
                                                  \<and> gateway t = ''easebuzz'') db);
                             done = \<lparr>code = 200, ok = True,
                                     message = ''Transaction details retrieved successfully''\<rparr>
                         in case found of
                              None \<Rightarrow> (done, db)
                            | Some t \<Rightarrow>
                                (done,
                                 save (retrieve_update stamp now
                                         (sr_transactionDetails result) t) db))))))"

section \<open>The redirect handlers\<close>










section \<open>The reverse hash in the words of the specification\<close>

text \<open>
  The specification describes the string that \<open>verifyHash\<close> digests as: salt first, then
  the status, then the fields of the request hash in descending order, the key last, joined
  with the delimiter \<open>|\<close>, an absent field counting as the empty string. The request hash
  of \<open>generateHash\<close> lists the fields in the order of \<open>hashed_fields\<close>.
\<close>

definition hashed_fields :: "string list" where
  "hashed_fields =
     [''txnid'', ''amount'', ''productinfo'', ''firstname'', ''email'',
      ''udf1'', ''udf2'', ''udf3'', ''udf4'', ''udf5'',
      ''udf6'', ''udf7'', ''udf8'', ''udf9'', ''udf10'']"

fun join_bar :: "string list \<Rightarrow> string" where
  "join_bar [] = []"
| "join_bar [x] = x"
| "join_bar (x # y # ys) = x @ ''|'' @ join_bar (y # ys)"

definition spec_reverse_string :: "string \<Rightarrow> string \<Rightarrow> fields \<Rightarrow> string" where
  "spec_reverse_string key salt response =
     join_bar ([salt, or_empty (response ''status'')]
               @ rev (map (\<lambda>k. or_empty (response k)) hashed_fields) @ [key])"

section \<open>Sample data\<close>








definition sample_easebuzz :: easebuzz where
  "sample_easebuzz =
     \<lparr>eb_key = ''KEY123'', eb_salt = ''SALT456'', eb_baseUrl = ''https://testpay.easebuzz.in''\<rparr>"


definition env_unset :: env where
  "env_unset = \<lparr>NODE_ENV = None, EASEBUZZ_ENV = None\<rparr>"

definition env_production :: env where
  "env_production = \<lparr>NODE_ENV = Some ''production'', EASEBUZZ_ENV = Some ''prod''\<rparr>"

definition env_development :: env where
  "env_development = \<lparr>NODE_ENV = Some ''development'', EASEBUZZ_ENV = None\<rparr>"

definition sample_callback :: fields where
  "sample_callback =
     [''txnid'' \<mapsto> ''TXN1'', ''amount'' \<mapsto> ''100.00'', ''productinfo'' \<mapsto> ''Payment'',
      ''firstname'' \<mapsto> ''Asha'', ''email'' \<mapsto> ''a@b.com'', ''phone'' \<mapsto> ''9876543210'',
      ''status'' \<mapsto> ''success'']"

definition sample_digest :: string where
  "sample_digest = sha512 (reverse_hash_string sample_easebuzz (eb_responseData sample_callback))"



section \<open>Properties\<close>

subsection \<open>The store\<close>






subsection \<open>Strings\<close>


lemma lower_easebuzz: "toLowerCase ''easebuzz'' = ''easebuzz''"
  by (simp add: toLowerCase_def lower_char_def)

lemma filter_dropWhile_disjoint:
  assumes "\<And>x. P x \<Longrightarrow> \<not> Q x"
  shows "filter Q (dropWhile P xs) = filter Q xs"
  using assms by (induction xs) auto

lemma space_not_digit: "is_space c \<Longrightarrow> \<not> is_digit c"
  by (auto simp: is_space_def is_digit_def)

lemma strip_non_digits_trim: "strip_non_digits (js_trim s) = strip_non_digits s"
proof -
  have "filter is_digit (rev (dropWhile is_space (rev (dropWhile is_space s))))
          = rev (filter is_digit (dropWhile is_space (rev (dropWhile is_space s))))"
    by (simp add: rev_filter)
  also have "\<dots> = rev (filter is_digit (rev (dropWhile is_space s)))"
    by (simp add: filter_dropWhile_disjoint space_not_digit)
  also have "\<dots> = filter is_digit (dropWhile is_space s)"
    by (simp add: rev_filter)
  also have "\<dots> = filter is_digit s"
    by (simp add: filter_dropWhile_disjoint space_not_digit)
  finally show ?thesis by (simp add: strip_non_digits_def js_trim_def)
qed

subsection \<open>Status vocabulary of the adapters\<close>

text \<open>
  C1. Every adapter's \<open>handleCallback\<close> is claimed to map the gateway status to the four
  internal states: success, completed, paid to success; failed, failure to failed;
  cancelled, canceled to cancelled; anything else to pending. The status poll of the
  service does (\<open>map_gateway_status\<close>); the adapters do not. The UPI adapter turns every
  status that is not a success word into \<open>failed\<close>, so a webhook that reports \<open>pending\<close>
  or \<open>cancelled\<close> (values that the documentation of its route lists) is stored as failed;
  the Easebuzz adapter knows neither \<open>failed\<close> nor the cancellation words.
\<close>

theorem adapter_status_mapping_diverges:
  "upi_handleCallback
     [''order_id'' \<mapsto> ''TXN1'', ''amount'' \<mapsto> ''100'', ''status'' \<mapsto> ''pending'']
     = CallbackOk (Some ''TXN1'') ''failed''
         [''order_id'' \<mapsto> ''TXN1'', ''amount'' \<mapsto> ''100'', ''status'' \<mapsto> ''pending'']
   \<and> map_gateway_status (JStr ''pending'') = ''pending''
   \<and> cb_status (upi_handleCallback [''order_id'' \<mapsto> ''TXN1'', ''status'' \<mapsto> ''cancelled''])
       = ''failed''
   \<and> map_gateway_status (JStr ''cancelled'') = ''cancelled''
   \<and> eb_callback_status (Some ''failed'') = ''pending''
   \<and> map_gateway_status (JStr ''failed'') = ''failed''"
  by (simp add: upi_handleCallback_def or_field_def truthy_field_def nonempty_def
        map_gateway_status_def eb_callback_status_def)

subsection \<open>Keys of the stored response\<close>

text \<open>
  The paths of the service convert the stored Map with \<open>Object.fromEntries\<close> before they
  spread it, and keep every key.
\<close>

lemma callback_update_keeps_keys:
  "dom (fromEntries (paymentResponse t))
     \<subseteq> dom (fromEntries (paymentResponse (callback_update stamp now tid st data cd t)))"
  by (auto simp: callback_update_def Let_def fromEntries_def)

lemma poll_update_Some:
  assumes "poll_update stamp now sr t = Inr (Some t')"
  shows "status t' = map_gateway_status (poll_status sr)
       \<and> paymentResponse t'
           = Some ((fromEntries (paymentResponse t) ++ spread (poll_details sr))
                     (''status_check_date'' \<mapsto> JStr stamp,
                      ''status_check_response'' \<mapsto> sr_data sr))"
  using assms
  by (auto simp: poll_update_def Let_def split: if_splits sum.splits)

lemma poll_update_keeps_keys:
  assumes "poll_update stamp now sr t = Inr (Some t')"
  shows "dom (fromEntries (paymentResponse t)) \<subseteq> dom (fromEntries (paymentResponse t'))"
  using poll_update_Some [OF assms] by (auto simp: fromEntries_def)

lemma retrieve_update_keeps_keys:
  "dom (fromEntries (paymentResponse t))
     \<subseteq> dom (fromEntries (paymentResponse (retrieve_update stamp now details t)))"
  by (auto simp: retrieve_update_def Let_def fromEntries_def)

lemma checkPaymentStatus_keeps_keys:
  assumes "checkPaymentStatus gws json stamp now txId v1 v2 db = Inr (db', t')"
    and "findOne (\<lambda>t. transactionId t = txId) db = Some t"
  shows "dom (fromEntries (paymentResponse t)) \<subseteq> dom (fromEntries (paymentResponse t'))
       \<and> (db' = db \<or> db' = save t' db)"
  using assms
  by (auto simp: checkPaymentStatus_def Let_def
        split: sum.splits option.splits dest!: poll_update_keeps_keys)


subsection \<open>The update policy\<close>
















subsection \<open>Replay of a webhook\<close>







subsection \<open>Errors of the adapters\<close>

text \<open>
  C5. Every operation of an adapter is to answer an expected failure of the upstream with
  a structured result, \<open>success\<close> being false, and never to let an exception escape; the
  error branch of \<open>retrieveTransactionDetails\<close> in particular. That branch throws: when the
  upstream call times out (no answer), the promise of \<open>retrieveTransactionDetails\<close> is
  rejected with a ReferenceError, whatever the key, the salt and the transaction id are.
  So the function never returns a result whose \<open>success\<close> is false.
\<close>

theorem retrieve_error_branch_throws:
  "retrieveTransactionDetails json gw txnid (HttpFail msg None)
     = Inl (ReferenceError ''trimmedTxnId is not defined'')"
  by (simp add: retrieveTransactionDetails_def retrieve_try_def retrieve_catch_def Let_def)

lemma retrieve_never_structured_failure:
  "retrieveTransactionDetails json gw txnid outcome = Inr r \<Longrightarrow> sr_success r"
  by (auto simp: retrieveTransactionDetails_def retrieve_try_def retrieve_catch_def Let_def
        split: sum.splits thrown.splits http_outcome.splits if_splits)

text \<open>
  The sibling operations of the adapter do answer a failed upstream call with a structured
  failure.
\<close>

lemma eb_checkPaymentStatus_upstream_failure:
  assumes "paymentRequest t = Some pr" "pr ''email'' = Some (JStr e)" "e \<noteq> []"
    and "pr ''phone'' = Some (JStr p)" "length (strip_non_digits p) = 10"
  shows "eb_checkPaymentStatus gw txId (Some t) (HttpFail m1 r1) (HttpFail m2 r2)
           = status_failure
               (JStr (''Both v1 and v2.1 endpoints failed. v1: '' @ m1 @ '', v2.1: '' @ m2))"
proof -
  from assms(5) have "p \<noteq> []" by (auto simp: strip_non_digits_def)
  with assms show ?thesis
    by (simp add: eb_checkPaymentStatus_def Let_def fromEntries_def js_or_def
          strip_non_digits_trim)
qed

lemma eb_createPayment_upstream_failure:
  "\<not> gr_success (eb_createPayment_answer json gw finalTxnId (HttpFail msg response))"
  by (simp add: eb_createPayment_answer_def Let_def)

text \<open>
  The exception reaches the route, which answers 500 with the text of the ReferenceError
  where it would answer 400 with the message of the gateway.
\<close>

lemma retrieve_route_upstream_timeout:
  assumes "gw_easebuzz gws = Some gw" "txnid \<noteq> []"
  shows "retrieve_route gws json stamp now txnid (HttpFail msg None) db
           = (\<lparr>code = 500, ok = False, message = ''trimmedTxnId is not defined''\<rparr>, db)"
  using assms
  by (simp add: retrieve_route_def getGateway_def lower_easebuzz Let_def
        retrieveTransactionDetails_def retrieve_try_def retrieve_catch_def)

subsection \<open>Verification of the reverse hash\<close>

lemma reverse_hash_string_spec:
  "reverse_hash_string gw response
     = spec_reverse_string (js_trim (eb_key gw)) (js_trim (eb_salt gw)) response"
  by (simp add: reverse_hash_string_def spec_reverse_string_def hashed_fields_def)

lemma length_hex64: "length (hex64 w) = 16"
  by (simp add: hex64_def)

lemma length_sha512: "length (sha512 s) = 128"
proof -
  obtain a b c d e f g h where
    "fold (compress (pad_message (map of_char s)))
       [0..<length (pad_message (map of_char s)) div 128] initial_state
     = (a, b, c, d, e, f, g, h)"
    by (metis prod_cases3)
  then show ?thesis
    by (simp add: sha512_def Let_def length_hex64)
qed

lemma sha512_nonempty: "sha512 s \<noteq> []"
  using length_sha512 [of s] by auto

lemma verifyHash_short_digest:
  assumes "length h \<noteq> 128"
  shows "\<not> verifyHash gw response (Some h)"
proof
  assume "verifyHash gw response (Some h)"
  then have "toLowerCase (sha512 (reverse_hash_string gw response)) = toLowerCase h"
    by (simp add: verifyHash_def nonempty_def split: if_splits)
  then have "length (sha512 (reverse_hash_string gw response)) = length h"
    by (metis length_map toLowerCase_def)
  with assms show False by (simp add: length_sha512)
qed

lemma verifyHash_known_good:
  "verifyHash gw response (Some (sha512 (reverse_hash_string gw response)))"
  by (simp add: verifyHash_def nonempty_def sha512_nonempty)

lemma reverse_hash_string_unhashed:
  assumes "k \<notin> set (''status'' # hashed_fields)"
  shows "reverse_hash_string gw (response(k \<mapsto> v)) = reverse_hash_string gw response"
proof -
  have "map (\<lambda>f. or_empty ((response(k \<mapsto> v)) f)) hashed_fields
          = map (\<lambda>f. or_empty (response f)) hashed_fields"
    using assms by (intro map_cong refl) auto
  moreover have "(response(k \<mapsto> v)) ''status'' = response ''status''"
    using assms by auto
  ultimately show ?thesis
    by (simp only: reverse_hash_string_spec spec_reverse_string_def)
qed

lemma eb_responseData_cong:
  assumes "\<forall>f\<in>set (''status'' # hashed_fields). cd' f = cd f"
  shows "eb_responseData cd' = eb_responseData cd"
  using assms by (simp add: eb_responseData_def hashed_fields_def)

lemma eb_responseData_unhashed:
  assumes "k \<notin> set (''status'' # hashed_fields)"
  shows "eb_responseData (cd(k \<mapsto> v)) = eb_responseData cd"
  using assms by (intro eb_responseData_cong) auto

lemma join_bar_Cons: "join_bar (x # ys) = x @ concat (map (\<lambda>q. ''|'' @ q) ys)"
  by (induction ys arbitrary: x) simp_all

lemma join_bar_middle:
  "join_bar (xs @ x # ys)
     = concat (map (\<lambda>p. p @ ''|'') xs) @ x @ concat (map (\<lambda>q. ''|'' @ q) ys)"
proof (induction xs)
  case Nil
  show ?case by (simp add: join_bar_Cons)
next
  case (Cons a xs)
  then show ?case by (cases xs) simp_all
qed

lemma join_bar_differs:
  "x \<noteq> y \<Longrightarrow> join_bar (xs @ x # ys) \<noteq> join_bar (xs @ y # ys)"
  by (simp add: join_bar_middle)

lemma distinct_hashed: "distinct (''status'' # rev hashed_fields)"
  by (simp add: hashed_fields_def)

lemma spec_reverse_string_slots:
  "spec_reverse_string key salt response
     = join_bar (salt # map (\<lambda>f. or_empty (response f)) (''status'' # rev hashed_fields) @ [key])"
  by (simp add: spec_reverse_string_def rev_map)

lemma reverse_hash_string_hashed:
  assumes k: "k \<in> set (''status'' # hashed_fields)" and v: "v \<noteq> or_empty (response k)"
  shows "reverse_hash_string gw (response(k \<mapsto> v)) \<noteq> reverse_hash_string gw response"
proof -
  let ?fs = "''status'' # rev hashed_fields"
  let ?g = "\<lambda>f. or_empty (response f)"
  let ?g' = "\<lambda>f. or_empty ((response(k \<mapsto> v)) f)"
  from k have "k \<in> set ?fs" by simp
  then obtain ps qs where fs: "?fs = ps @ k # qs"
    by (meson split_list)
  from distinct_hashed have "distinct (ps @ k # qs)"
    unfolding fs .
  then have nk: "k \<notin> set ps" "k \<notin> set qs"
    by auto
  have ps: "map ?g' ps = map ?g ps" using nk(1) by (intro map_cong refl) auto
  have qs: "map ?g' qs = map ?g qs" using nk(2) by (intro map_cong refl) auto
  have new: "map ?g' ?fs = map ?g ps @ v # map ?g qs"
    unfolding fs using ps qs by (simp add: or_empty_def)
  have old: "map ?g ?fs = map ?g ps @ ?g k # map ?g qs"
    unfolding fs by simp
  have "join_bar ((js_trim (eb_salt gw) # map ?g ps) @ v # (map ?g qs @ [js_trim (eb_key gw)]))
          \<noteq> join_bar ((js_trim (eb_salt gw) # map ?g ps) @ ?g k
                          # (map ?g qs @ [js_trim (eb_key gw)]))"
    using v by (rule join_bar_differs)
  then show ?thesis
    unfolding reverse_hash_string_spec spec_reverse_string_slots new old by simp
qed

lemma eb_handleCallback_verified:
  assumes "truthy_field (cd ''hash'')" "verifyHash gw (eb_responseData cd) (cd ''hash'')"
  shows "eb_handleCallback ev gw cd
           = CallbackOk (cd ''txnid'') (eb_callback_status (cd ''status'')) cd"
  using assms by (simp add: eb_handleCallback_def Let_def)

text \<open>
  C6, as the claim states it: for a known-good fixture \<open>verifyHash\<close> returns true, and for
  any mutation of one character of the payload it returns false. The digest covers the
  status and the fifteen fields of \<open>hashed_fields\<close> only. In the fixture below the callback
  carries the customer's phone number; changing its last digit leaves the verification
  true, and the adapter in production mode accepts the changed callback.
\<close>

theorem verifyHash_unhashed_mutation:
  "verifyHash sample_easebuzz (eb_responseData sample_callback) (Some sample_digest)
   \<and> sample_callback ''phone'' = Some ''9876543210''
   \<and> verifyHash sample_easebuzz
        (eb_responseData (sample_callback(''phone'' \<mapsto> ''9876543211''))) (Some sample_digest)
   \<and> eb_handleCallback env_production sample_easebuzz
        (sample_callback(''phone'' \<mapsto> ''9876543211'', ''hash'' \<mapsto> sample_digest))
       = CallbackOk (Some ''TXN1'') ''success''
           (sample_callback(''phone'' \<mapsto> ''9876543211'', ''hash'' \<mapsto> sample_digest))"
proof -
  have good: "verifyHash sample_easebuzz (eb_responseData sample_callback) (Some sample_digest)"
    unfolding sample_digest_def by (rule verifyHash_known_good)
  have d1: "eb_responseData (sample_callback(''phone'' \<mapsto> ''9876543211''))
              = eb_responseData sample_callback"
    by (rule eb_responseData_unhashed) (simp add: hashed_fields_def)
  have d2: "eb_responseData
              (sample_callback(''phone'' \<mapsto> ''9876543211'', ''hash'' \<mapsto> sample_digest))
              = eb_responseData sample_callback"
    by (rule eb_responseData_cong) (simp add: hashed_fields_def)
  have ne: "sample_digest \<noteq> []"
    unfolding sample_digest_def by (rule sha512_nonempty)
  have ph: "sample_callback ''phone'' = Some ''9876543210''"
    by (simp add: sample_callback_def)
  have cb: "eb_handleCallback env_production sample_easebuzz
              (sample_callback(''phone'' \<mapsto> ''9876543211'', ''hash'' \<mapsto> sample_digest))
            = CallbackOk (Some ''TXN1'') ''success''
                (sample_callback(''phone'' \<mapsto> ''9876543211'', ''hash'' \<mapsto> sample_digest))"
  proof -
    let ?cd = "sample_callback(''phone'' \<mapsto> ''9876543211'', ''hash'' \<mapsto> sample_digest)"
    have "truthy_field (?cd ''hash'')"
      using ne by (simp add: truthy_field_def nonempty_def)
    moreover have "verifyHash sample_easebuzz (eb_responseData ?cd) (?cd ''hash'')"
      using good by (simp add: d2)
    moreover have "?cd ''txnid'' = Some ''TXN1''"
      and "eb_callback_status (?cd ''status'') = ''success''"
      by (simp_all add: sample_callback_def eb_callback_status_def)
    ultimately show ?thesis
      using eb_handleCallback_verified [of ?cd sample_easebuzz env_production] by simp
  qed
  from good ph cb show ?thesis by (simp add: d1)
qed

text \<open>
  C6, amended. \<open>verifyHash\<close> returns false when no digest was received; otherwise it
  digests the string that the specification describes (trimmed salt, status, the fields of
  the request hash in descending order, trimmed key, joined with \<open>|\<close>, an absent field as
  the empty string) and compares the result with the received digest, letter case apart.
  Hence it returns true for the digest of that string. A change of a field outside the
  hashed list changes nothing. A change of the value of a hashed field changes the string
  that is digested; \<open>verifyHash\<close> then returns true just when the received digest is the
  digest of the changed string, that is, only when the two strings collide under SHA-512.
\<close>

theorem verifyHash_reverse_digest:
  "verifyHash gw response received
     = (nonempty received \<noteq> None
        \<and> toLowerCase (sha512 (spec_reverse_string (js_trim (eb_key gw)) (js_trim (eb_salt gw))
                                  response))
            = toLowerCase (or_empty received))
   \<and> verifyHash gw response (Some (sha512 (reverse_hash_string gw response)))
   \<and> (k \<notin> set (''status'' # hashed_fields) \<longrightarrow>
        verifyHash gw (response(k \<mapsto> v)) received = verifyHash gw response received
      \<and> verifyHash gw (eb_responseData (response(k \<mapsto> v))) received
          = verifyHash gw (eb_responseData response) received)
   \<and> (k \<in> set (''status'' # hashed_fields) \<and> v \<noteq> or_empty (response k) \<longrightarrow>
        reverse_hash_string gw (response(k \<mapsto> v)) \<noteq> reverse_hash_string gw response
      \<and> verifyHash gw (response(k \<mapsto> v)) (Some h)
          = (h \<noteq> []
             \<and> toLowerCase (sha512 (reverse_hash_string gw (response(k \<mapsto> v))))
                 = toLowerCase h))"
proof -
  have a: "verifyHash gw response received
     = (nonempty received \<noteq> None
        \<and> toLowerCase (sha512 (spec_reverse_string (js_trim (eb_key gw)) (js_trim (eb_salt gw))
                                  response))
            = toLowerCase (or_empty received))"
    by (auto simp: verifyHash_def reverse_hash_string_spec nonempty_def or_empty_def
          split: option.splits if_splits)
  have c: "verifyHash gw (response(k \<mapsto> v)) received = verifyHash gw response received"
    if "k \<notin> set (''status'' # hashed_fields)"
    by (simp add: verifyHash_def reverse_hash_string_unhashed [OF that] split: option.splits)
  have c': "verifyHash gw (eb_responseData (response(k \<mapsto> v))) received
              = verifyHash gw (eb_responseData response) received"
    if "k \<notin> set (''status'' # hashed_fields)"
    by (simp add: eb_responseData_unhashed [OF that])
  have d: "verifyHash gw (response(k \<mapsto> v)) (Some h)
          = (h \<noteq> []
             \<and> toLowerCase (sha512 (reverse_hash_string gw (response(k \<mapsto> v))))
                 = toLowerCase h)"
    by (simp add: verifyHash_def nonempty_def)
  from a verifyHash_known_good c c' d reverse_hash_string_hashed show ?thesis
    by blast
qed

theorem verifyHash_reverse_digest_witness:
  "''phone'' \<notin> set (''status'' # hashed_fields)
   \<and> verifyHash sample_easebuzz (sample_callback(''phone'' \<mapsto> ''0000000000''))
        (Some sample_digest)
       = verifyHash sample_easebuzz sample_callback (Some sample_digest)
   \<and> ''amount'' \<in> set (''status'' # hashed_fields)
   \<and> ''900.00'' \<noteq> or_empty (sample_callback ''amount'')
   \<and> reverse_hash_string sample_easebuzz (sample_callback(''amount'' \<mapsto> ''900.00''))
       \<noteq> reverse_hash_string sample_easebuzz sample_callback"
proof -
  have u: "''phone'' \<notin> set (''status'' # hashed_fields)"
    by (simp add: hashed_fields_def)
  have m: "''amount'' \<in> set (''status'' # hashed_fields)"
    by (simp add: hashed_fields_def)
  have v: "''900.00'' \<noteq> or_empty (sample_callback ''amount'')"
    by (simp add: sample_callback_def or_empty_def)
  note digest = verifyHash_reverse_digest [where gw = sample_easebuzz
      and response = sample_callback and received = "Some sample_digest"]
  from digest [where k = "''phone''" and v = "''0000000000''" and h = sample_digest] u
  have 1: "verifyHash sample_easebuzz (sample_callback(''phone'' \<mapsto> ''0000000000''))
             (Some sample_digest)
           = verifyHash sample_easebuzz sample_callback (Some sample_digest)"
    by blast
  from digest [where k = "''amount''" and v = "''900.00''" and h = sample_digest] m v
  have 2: "reverse_hash_string sample_easebuzz (sample_callback(''amount'' \<mapsto> ''900.00''))
             \<noteq> reverse_hash_string sample_easebuzz sample_callback"
    by blast
  from u m v 1 2 show ?thesis by blast
qed

subsection \<open>Hash policy of the callback\<close>

text \<open>
  C7, as the claim states it: outside production a hash that fails or is absent lets the
  call proceed, and in production a missing hash and an invalid hash are both rejected.
  The two checks of the adapter read the environment differently. With neither variable
  set, an invalid hash is rejected (so the mode would have to be production) and a
  missing hash is accepted (so it would have to be non-production).
\<close>

theorem hash_policy_counterexample:
  "eb_handleCallback env_unset sample_easebuzz (sample_callback(''hash'' \<mapsto> ''deadbeef''))
     = CallbackFail ''Invalid hash verification''
   \<and> eb_handleCallback env_unset sample_easebuzz sample_callback
     = CallbackOk (Some ''TXN1'') ''success'' sample_callback"
proof -
  have "\<not> verifyHash sample_easebuzz
            (eb_responseData (sample_callback(''hash'' \<mapsto> ''deadbeef''))) (Some ''deadbeef'')"
    by (rule verifyHash_short_digest) simp
  then show ?thesis
    by (simp add: eb_handleCallback_def Let_def env_unset_def truthy_field_def nonempty_def
          sample_callback_def eb_callback_status_def)
qed

text \<open>
  C7, amended. A hash that verifies always lets the call proceed. A hash that is present
  and does not verify is rejected, unless \<open>NODE_ENV\<close> is \<open>development\<close> or
  \<open>EASEBUZZ_ENV\<close> is \<open>test\<close>, where the call proceeds. A missing hash is rejected only
  when \<open>NODE_ENV\<close> is \<open>production\<close> and \<open>EASEBUZZ_ENV\<close> is \<open>prod\<close>, and the call proceeds
  otherwise. A call that proceeds returns the transaction id and the normalized status.
\<close>

theorem hash_policy:
  "(truthy_field (cd ''hash'') \<and> verifyHash gw (eb_responseData cd) (cd ''hash'') \<longrightarrow>
      eb_handleCallback ev gw cd
        = CallbackOk (cd ''txnid'') (eb_callback_status (cd ''status'')) cd)
   \<and> (truthy_field (cd ''hash'') \<and> \<not> verifyHash gw (eb_responseData cd) (cd ''hash'') \<longrightarrow>
        eb_handleCallback ev gw cd
          = (if NODE_ENV ev = Some ''development'' \<or> EASEBUZZ_ENV ev = Some ''test''
             then CallbackOk (cd ''txnid'') (eb_callback_status (cd ''status'')) cd
             else CallbackFail ''Invalid hash verification''))
   \<and> (\<not> truthy_field (cd ''hash'') \<longrightarrow>
        eb_handleCallback ev gw cd
          = (if NODE_ENV ev = Some ''production'' \<and> EASEBUZZ_ENV ev = Some ''prod''
             then CallbackFail ''Hash is required for callback verification''
             else CallbackOk (cd ''txnid'') (eb_callback_status (cd ''status'')) cd))"
  by (simp add: eb_handleCallback_def Let_def)

theorem hash_policy_witness:
  "eb_handleCallback env_production sample_easebuzz sample_callback
     = CallbackFail ''Hash is required for callback verification''
   \<and> eb_handleCallback env_development sample_easebuzz (sample_callback(''hash'' \<mapsto> ''0123''))
     = CallbackOk (Some ''TXN1'') ''success'' (sample_callback(''hash'' \<mapsto> ''0123''))
   \<and> eb_handleCallback env_production sample_easebuzz (sample_callback(''hash'' \<mapsto> ''0123''))
     = CallbackFail ''Invalid hash verification''
   \<and> eb_handleCallback env_production sample_easebuzz
        (sample_callback(''hash'' \<mapsto> sample_digest))
     = CallbackOk (Some ''TXN1'') ''success'' (sample_callback(''hash'' \<mapsto> sample_digest))"
proof -
  have bad: "\<not> verifyHash sample_easebuzz
            (eb_responseData (sample_callback(''hash'' \<mapsto> ''0123'')))
            ((sample_callback(''hash'' \<mapsto> ''0123'')) ''hash'')"
    by (simp add: verifyHash_short_digest)
  have d: "eb_responseData (sample_callback(''hash'' \<mapsto> sample_digest))
             = eb_responseData sample_callback"
    by (rule eb_responseData_unhashed) (simp add: hashed_fields_def)
  have good: "verifyHash sample_easebuzz
            (eb_responseData (sample_callback(''hash'' \<mapsto> sample_digest)))
            ((sample_callback(''hash'' \<mapsto> sample_digest)) ''hash'')"
    unfolding d by (simp add: sample_digest_def verifyHash_known_good)
  have nohash: "\<not> truthy_field (sample_callback ''hash'')"
    by (simp add: sample_callback_def truthy_field_def nonempty_def)
  have hash: "truthy_field ((sample_callback(''hash'' \<mapsto> ''0123'')) ''hash'')"
    by (simp add: truthy_field_def nonempty_def)
  have hash': "truthy_field ((sample_callback(''hash'' \<mapsto> sample_digest)) ''hash'')"
    by (simp add: truthy_field_def nonempty_def sample_digest_def sha512_nonempty)
  have ids: "sample_callback ''txnid'' = Some ''TXN1''"
    "eb_callback_status (sample_callback ''status'') = ''success''"
    by (simp_all add: sample_callback_def eb_callback_status_def)
  show ?thesis
    using hash_policy [of sample_callback sample_easebuzz env_production]
      hash_policy [of "sample_callback(''hash'' \<mapsto> ''0123'')" sample_easebuzz env_development]
      hash_policy [of "sample_callback(''hash'' \<mapsto> ''0123'')" sample_easebuzz env_production]
      hash_policy [of "sample_callback(''hash'' \<mapsto> sample_digest)" sample_easebuzz
        env_production]
      bad good nohash hash hash' ids
    by (simp add: env_production_def env_development_def)
qed

subsection \<open>Phone number of the status check\<close>






subsection \<open>The payment id of the hosted checkout\<close>




subsection \<open>The failure redirect\<close>



end
